theory Spec2Isabelle
  imports Main "HOL-Library.Word"
begin

section \<open>Python values used by the booking application\<close>

text \<open>
  Text is modelled as \<^typ>\<open>string\<close>, one \<^typ>\<open>char\<close> per character of the Python
  \<open>str\<close>: the characters are the code points 0 to 255 (ASCII and Latin-1). On them
  the helpers below are Python's \<open>str.strip\<close>, \<open>str.upper\<close> and \<open>int\<close>, with one
  exception: the upper-case forms of the micro sign (0xB5) and of y with diaeresis (0xFF)
  are code points above 255, and \<open>upper\<close> leaves these two characters as they are.
\<close>

type_synonym byte = "8 word"

definition is_space :: "char \<Rightarrow> bool" where
  \<comment> \<open>\<open>str.isspace\<close> for one character: TAB..CR, FS..US, space, NEL, NBSP.\<close>
  "is_space c = (c \<in> set [CHR 0x09, CHR 0x0A, CHR 0x0B, CHR 0x0C, CHR 0x0D,
     CHR 0x1C, CHR 0x1D, CHR 0x1E, CHR 0x1F, CHR 0x20, CHR 0x85, CHR 0xA0])"

definition strip :: "string \<Rightarrow> string" where
  \<comment> \<open>\<open>s.strip()\<close>: leading and trailing whitespace removed.\<close>
  "strip s = rev (dropWhile is_space (rev (dropWhile is_space s)))"

definition upper_table :: "(char \<times> char) list" where
  \<comment> \<open>the letters with a one-character upper-case form: a to z, and the Latin-1 letters
      0xE0 to 0xFE (the division sign 0xF7 is no letter)\<close>
  "upper_table =
      [(CHR ''a'', CHR ''A''), (CHR ''b'', CHR ''B''), (CHR ''c'', CHR ''C''),
       (CHR ''d'', CHR ''D''), (CHR ''e'', CHR ''E''), (CHR ''f'', CHR ''F''),
       (CHR ''g'', CHR ''G''), (CHR ''h'', CHR ''H''), (CHR ''i'', CHR ''I''),
       (CHR ''j'', CHR ''J''), (CHR ''k'', CHR ''K''), (CHR ''l'', CHR ''L''),
       (CHR ''m'', CHR ''M''), (CHR ''n'', CHR ''N''), (CHR ''o'', CHR ''O''),
       (CHR ''p'', CHR ''P''), (CHR ''q'', CHR ''Q''), (CHR ''r'', CHR ''R''),
       (CHR ''s'', CHR ''S''), (CHR ''t'', CHR ''T''), (CHR ''u'', CHR ''U''),
       (CHR ''v'', CHR ''V''), (CHR ''w'', CHR ''W''), (CHR ''x'', CHR ''X''),
       (CHR ''y'', CHR ''Y''), (CHR ''z'', CHR ''Z''), (CHR 0xE0, CHR 0xC0),
       (CHR 0xE1, CHR 0xC1), (CHR 0xE2, CHR 0xC2), (CHR 0xE3, CHR 0xC3),
       (CHR 0xE4, CHR 0xC4), (CHR 0xE5, CHR 0xC5), (CHR 0xE6, CHR 0xC6),
       (CHR 0xE7, CHR 0xC7), (CHR 0xE8, CHR 0xC8), (CHR 0xE9, CHR 0xC9),
       (CHR 0xEA, CHR 0xCA), (CHR 0xEB, CHR 0xCB), (CHR 0xEC, CHR 0xCC),
       (CHR 0xED, CHR 0xCD), (CHR 0xEE, CHR 0xCE), (CHR 0xEF, CHR 0xCF),
       (CHR 0xF0, CHR 0xD0), (CHR 0xF1, CHR 0xD1), (CHR 0xF2, CHR 0xD2),
       (CHR 0xF3, CHR 0xD3), (CHR 0xF4, CHR 0xD4), (CHR 0xF5, CHR 0xD5),
       (CHR 0xF6, CHR 0xD6), (CHR 0xF8, CHR 0xD8), (CHR 0xF9, CHR 0xD9),
       (CHR 0xFA, CHR 0xDA), (CHR 0xFB, CHR 0xDB), (CHR 0xFC, CHR 0xDC),
       (CHR 0xFD, CHR 0xDD), (CHR 0xFE, CHR 0xDE)]"

definition upper_char :: "char \<Rightarrow> char" where
  "upper_char c = (case map_of upper_table c of None \<Rightarrow> c | Some u \<Rightarrow> u)"

definition upper :: "string \<Rightarrow> string" where
  \<comment> \<open>\<open>s.upper()\<close>; the sharp s (0xDF) becomes two characters\<close>
  "upper s = concat (map (\<lambda>c. if c = CHR 0xDF then ''SS'' else [upper_char c]) s)"

definition hexdigit :: "nat \<Rightarrow> char" where
  "hexdigit n = ''0123456789abcdef'' ! (n mod 16)"

definition hex_byte :: "byte \<Rightarrow> string" where
  \<comment> \<open>\<open>bytes.hex()\<close> on one byte: high nibble, then low nibble, lower case.\<close>
  "hex_byte b = [hexdigit (unat b div 16), hexdigit (unat b mod 16)]"

text \<open>
  The operating system's random source, as \<open>secrets\<close> reads it, is an unending supply of
  bytes: \<open>rng i\<close> is the \<open>i\<close>-th byte not yet drawn.
\<close>

type_synonym rng = "nat \<Rightarrow> byte"

definition token_bytes :: "nat \<Rightarrow> rng \<Rightarrow> byte list" where
  "token_bytes n r = map r [0..<n]"

definition advance :: "nat \<Rightarrow> rng \<Rightarrow> rng" where
  \<comment> \<open>the supply after \<open>n\<close> bytes have been drawn\<close>
  "advance n r = (\<lambda>i. r (i + n))"

definition token_hex :: "nat \<Rightarrow> rng \<Rightarrow> string" where
  \<comment> \<open>\<open>secrets.token_hex(n)\<close>: \<open>n\<close> random bytes, two hex digits each.\<close>
  "token_hex n r = concat (map hex_byte (token_bytes n r))"

definition is_lower_hex :: "char \<Rightarrow> bool" where
  "is_lower_hex c = (c \<in> set ''0123456789abcdef'')"

definition is_upper_hex :: "char \<Rightarrow> bool" where
  "is_upper_hex c = (c \<in> set ''0123456789ABCDEF'')"

section \<open>models.py: the seat ledger\<close>

text \<open>
  The two models, field by field. A \<open>DateTimeField\<close> is a point in time, an
  \<^typ>\<open>int\<close> (seconds), except \<open>Trip.depart_at\<close>, which the views only render
  with \<open>isoformat()\<close> and which is kept as that text. A nullable column is an
  \<^typ>\<open>'a option\<close>. \<open>bus_image\<close> is the URL of the uploaded file, \<open>None\<close> when
  there is no file. \<open>trip_pk\<close> is Django's implicit primary key \<open>id\<close> of a trip;
  \<open>seat_trip\<close> is the foreign key \<open>Seat.trip\<close>; a seat's own primary key is its
  position in the table.
\<close>

datatype status = AVAILABLE | HOLD | BOOKED

record trip =
  trip_pk :: int
  bus_image :: "string option"
  bus_image_cropping :: string
  title :: string
  bus_type :: string
  route_from :: string
  route_to :: string
  depart_at :: string
  price :: nat
  description :: string
  capacity_total :: nat
  is_active :: bool
  admin_wa :: string
  created_at :: int

record seat =
  seat_trip :: int
  code :: string
  status :: status
  hold_token :: "string option"
  hold_until :: "int option"
  customer_name :: "string option"
  customer_wa :: "string option"
  claim_code :: "string option"
  booked_at :: "int option"
  booking_code :: "string option"
  updated_at :: int

definition new_seat :: "int \<Rightarrow> string \<Rightarrow> int \<Rightarrow> seat" where
  \<comment> \<open>\<open>Seat(trip=..., code=...)\<close> saved at time \<open>t\<close>: the declared defaults\<close>
  "new_seat trip_id c t =
     \<lparr>seat_trip = trip_id, code = c, status = AVAILABLE, hold_token = None,
      hold_until = None, customer_name = None, customer_wa = None, claim_code = None,
      booked_at = None, booking_code = None, updated_at = t\<rparr>"

definition generate_claim_code :: "rng \<Rightarrow> string" where
  \<comment> \<open>\<open>Seat.generate_claim_code\<close>\<close>
  "generate_claim_code r =
     (let raw = upper (token_hex 4 r) in take 4 raw @ ''-'' @ drop 4 raw)"

definition generate_booking_code :: "rng \<Rightarrow> string" where
  \<comment> \<open>\<open>Seat.generate_booking_code\<close>\<close>
  "generate_booking_code r = (let raw = upper (token_hex 3 r) in ''BK-'' @ raw)"

definition claim_code_format :: "string \<Rightarrow> bool" where
  \<comment> \<open>four upper-case hex digits, a hyphen, four upper-case hex digits\<close>
  "claim_code_format s =
     (length s = 9 \<and> list_all is_upper_hex (take 4 s) \<and> s ! 4 = CHR ''-''
      \<and> list_all is_upper_hex (drop 5 s))"

definition booking_code_format :: "string \<Rightarrow> bool" where
  \<comment> \<open>the prefix BK- and six upper-case hex digits\<close>
  "booking_code_format s =
     (length s = 9 \<and> take 3 s = ''BK-'' \<and> list_all is_upper_hex (drop 3 s))"

section \<open>views.py: requests, responses and helpers\<close>

text \<open>
  A decoded JSON value, as \<open>json.loads\<close> returns it. A finite float \<open>Finite m e\<close> is
  the number \<open>m * 2 ^ e\<close>; \<open>json.loads\<close> also accepts \<open>Infinity\<close>, \<open>-Infinity\<close> and
  \<open>NaN\<close>. A \<open>JObj\<close> is a Python \<open>dict\<close>, read with \<^const>\<open>map_of\<close>.
\<close>

datatype pyfloat = Finite int int | Infinity bool | NaN

datatype json =
    JNull
  | JBool bool
  | JInt int
  | JFloat pyfloat
  | JStr string
  | JArr "json list"
  | JObj "(string \<times> json) list"

datatype exn =
  TypeError | ValueError | OverflowError | AttributeError | UnicodeDecodeError | RecursionError

definition bind_exn :: "exn + 'a \<Rightarrow> ('a \<Rightarrow> exn + 'b) \<Rightarrow> exn + 'b" where
  \<comment> \<open>sequencing: an exception raised by the first step skips the rest\<close>
  "bind_exn m f = (case m of Inl e \<Rightarrow> Inl e | Inr x \<Rightarrow> f x)"

fun truthy :: "json \<Rightarrow> bool" where
  \<comment> \<open>Python's truth value of an object\<close>
  "truthy JNull = False"
| "truthy (JBool b) = b"
| "truthy (JInt n) = (n \<noteq> 0)"
| "truthy (JFloat (Finite m e)) = (m \<noteq> 0)"
| "truthy (JFloat (Infinity neg)) = True"
| "truthy (JFloat NaN) = True"
| "truthy (JStr s) = (s \<noteq> [])"
| "truthy (JArr xs) = (xs \<noteq> [])"
| "truthy (JObj kvs) = (kvs \<noteq> [])"

definition digit_val :: "char \<Rightarrow> int option" where
  "digit_val c = map_of (zip ''0123456789'' [0, 1, 2, 3, 4, 5, 6, 7, 8, 9]) c"

fun parse_digits :: "int \<Rightarrow> bool \<Rightarrow> string \<Rightarrow> int option" where
  \<comment> \<open>decimal digits, single underscores allowed between two digits;
      the flag says that the previous character was a digit\<close>
  "parse_digits acc after_digit [] = (if after_digit then Some acc else None)"
| "parse_digits acc after_digit (c # cs) =
     (case digit_val c of
        Some d \<Rightarrow> parse_digits (10 * acc + d) True cs
      | None \<Rightarrow> if c = CHR ''_'' \<and> after_digit then parse_digits acc False cs else None)"

definition is_int_space :: "char \<Rightarrow> bool" where
  \<comment> \<open>the whitespace \<open>int\<close> skips around a number: TAB..CR, space, NEL, NBSP
      (not FS..US, which \<open>str.strip\<close> removes)\<close>
  "is_int_space c = (c \<in> set [CHR 0x09, CHR 0x0A, CHR 0x0B, CHR 0x0C, CHR 0x0D,
     CHR 0x20, CHR 0x85, CHR 0xA0])"

definition max_str_digits :: nat where
  \<comment> \<open>\<open>sys.int_info.default_max_str_digits\<close>\<close>
  "max_str_digits = 4300"

definition int_of_string :: "string \<Rightarrow> int option" where
  \<comment> \<open>\<open>int(s)\<close> for a \<open>str\<close>: surrounding whitespace, an optional sign, base 10, at
      most \<open>max_str_digits\<close> digits; \<open>None\<close> is ValueError\<close>
  "int_of_string s =
     (case rev (dropWhile is_int_space (rev (dropWhile is_int_space s))) of
        [] \<Rightarrow> None
      | c # cs \<Rightarrow>
          (let ds = (if c = CHR ''-'' \<or> c = CHR ''+'' then cs else c # cs) in
           if max_str_digits < length (filter (\<lambda>d. digit_val d \<noteq> None) ds) then None
           else if c = CHR ''-'' then map_option uminus (parse_digits 0 False ds)
           else parse_digits 0 False ds))"

definition trunc_float :: "int \<Rightarrow> int \<Rightarrow> int" where
  \<comment> \<open>\<open>m * 2 ^ e\<close> rounded towards zero\<close>
  "trunc_float m e =
     (if 0 \<le> e then m * 2 ^ nat e else sgn m * (\<bar>m\<bar> div 2 ^ nat (- e)))"

fun py_int :: "json \<Rightarrow> exn + int" where
  \<comment> \<open>the builtin \<open>int(value)\<close>\<close>
  "py_int JNull = Inl TypeError"
| "py_int (JBool b) = Inr (if b then 1 else 0)"
| "py_int (JInt n) = Inr n"
| "py_int (JFloat (Finite m e)) = Inr (trunc_float m e)"
| "py_int (JFloat (Infinity neg)) = Inl OverflowError"
| "py_int (JFloat NaN) = Inl ValueError"
| "py_int (JStr s) = (case int_of_string s of None \<Rightarrow> Inl ValueError | Some n \<Rightarrow> Inr n)"
| "py_int (JArr xs) = Inl TypeError"
| "py_int (JObj kvs) = Inl TypeError"

definition to_int :: "json \<Rightarrow> int \<Rightarrow> exn + int" where
  \<comment> \<open>\<open>_to_int(value, default)\<close>: only TypeError and ValueError are caught\<close>
  "to_int v dflt =
     (case py_int v of
        Inr n \<Rightarrow> Inr n
      | Inl e \<Rightarrow> if e = TypeError \<or> e = ValueError then Inr dflt else Inl e)"

definition dict_get :: "json \<Rightarrow> string \<Rightarrow> exn + json" where
  \<comment> \<open>\<open>body.get(key)\<close>: \<open>None\<close> for a missing key; only a dict has the method\<close>
  "dict_get b k =
     (case b of
        JObj kvs \<Rightarrow> Inr (case map_of kvs k of None \<Rightarrow> JNull | Some v \<Rightarrow> v)
      | _ \<Rightarrow> Inl AttributeError)"

definition or_empty :: "json \<Rightarrow> json" where
  \<comment> \<open>\<open>value or ""\<close>\<close>
  "or_empty v = (if truthy v then v else JStr [])"

definition str_strip :: "json \<Rightarrow> exn + string" where
  \<comment> \<open>\<open>value.strip()\<close>: only a \<open>str\<close> has the method\<close>
  "str_strip v = (case v of JStr s \<Rightarrow> Inr (strip s) | _ \<Rightarrow> Inl AttributeError)"

definition field_text :: "json \<Rightarrow> string \<Rightarrow> exn + string" where
  \<comment> \<open>\<open>(body.get(key) or "").strip()\<close>\<close>
  "field_text b k = bind_exn (dict_get b k) (\<lambda>v. str_strip (or_empty v))"

definition field_int :: "json \<Rightarrow> string \<Rightarrow> exn + int" where
  \<comment> \<open>\<open>_to_int(body.get(key))\<close>\<close>
  "field_int b k = bind_exn (dict_get b k) (\<lambda>v. to_int v 0)"

datatype http_method = GET | HEAD | POST | PUT | PATCH | DELETE | OPTIONS

text \<open>
  The request body as \<open>_json_body\<close> meets it: bytes that are not UTF-8 (\<open>decode\<close>
  raises), text that is empty or blank, text that \<open>json.loads\<close> rejects with
  JSONDecodeError, text with an integer literal of more than \<open>max_str_digits\<close> digits
  (\<open>json.loads\<close> raises a plain ValueError, which is not a JSONDecodeError), text
  nested too deeply for the decoder (RecursionError), or text that it decodes to a value.
\<close>

datatype body =
    Body_undecodable
  | Body_blank
  | Body_malformed
  | Body_oversized_integer
  | Body_too_deep
  | Body_json json

record auth_user =
  is_authenticated :: bool
  is_staff :: bool

record request =
  req_method :: http_method  \<comment> \<open>\<open>request.method\<close>\<close>
  body :: body
  user :: "auth_user option"
  headers :: "string \<rightharpoonup> string"
  base_uri :: string

record settings =
  ADMIN_API_KEY :: "string option"

datatype response =
    JsonResponse "(string \<times> json) list" nat
  | HttpResponseNotAllowed "http_method list"

datatype outcome = Returned response | Raised exn

definition SESSION_KEY :: string where
  "SESSION_KEY = ''seat_hold_token''"

definition ADMIN_KEY_HEADER :: string where
  "ADMIN_KEY_HEADER = ''X-ADMIN-KEY''"

definition ok_resp :: "json option \<Rightarrow> string \<Rightarrow> nat \<Rightarrow> response" where
  \<comment> \<open>\<open>_ok(data, message, status)\<close>\<close>
  "ok_resp dat msg st =
     JsonResponse ([(''ok'', JBool True), (''message'', JStr msg)]
                   @ (case dat of None \<Rightarrow> [] | Some d \<Rightarrow> [(''data'', d)])) st"

definition err_resp :: "string \<Rightarrow> nat \<Rightarrow> json option \<Rightarrow> response" where
  \<comment> \<open>\<open>_err(message, status, data)\<close>\<close>
  "err_resp msg st dat =
     JsonResponse ([(''ok'', JBool False), (''message'', JStr msg)]
                   @ (case dat of None \<Rightarrow> [] | Some d \<Rightarrow> [(''data'', d)])) st"

definition json_body :: "request \<Rightarrow> exn + (json \<times> response option)" where
  \<comment> \<open>\<open>_json_body(request)\<close>\<close>
  "json_body req =
     (case body req of
        Body_undecodable \<Rightarrow> Inl UnicodeDecodeError
      | Body_blank \<Rightarrow> Inr (JObj [], None)
      | Body_malformed \<Rightarrow> Inr (JObj [], Some (err_resp ''JSON body tidak valid.'' 400 None))
      | Body_oversized_integer \<Rightarrow> Inl ValueError
      | Body_too_deep \<Rightarrow> Inl RecursionError
      | Body_json v \<Rightarrow> Inr (v, None))"

definition is_admin_request :: "settings \<Rightarrow> request \<Rightarrow> bool" where
  \<comment> \<open>\<open>_is_admin_request(request)\<close>\<close>
  "is_admin_request cfg req =
     (if (case user req of None \<Rightarrow> False | Some u \<Rightarrow> is_authenticated u \<and> is_staff u)
      then True
      else let expected = (case ADMIN_API_KEY cfg of None \<Rightarrow> [] | Some k \<Rightarrow> k) in
        if expected = [] then False
        else let provided = strip (case headers req ADMIN_KEY_HEADER of
                                     None \<Rightarrow> [] | Some h \<Rightarrow> h)
             in provided = expected)"

section \<open>views.py: the service layer as the views use it\<close>

text \<open>
  The views call the module \<open>services\<close>, whose functions return an object with the
  attributes \<open>ok\<close>, \<open>message\<close> and \<open>data\<close> (or a count, or a list of trips).
  The views are defined for any such module: a record of functions over the backing
  store \<open>'w\<close>.
\<close>

record result =
  ok :: bool
  message :: string
  data :: "json option"

record 'w services =
  services_expire_holds :: "'w \<Rightarrow> nat \<times> 'w"
  services_list_trips :: "'w \<Rightarrow> trip list \<times> 'w"
  services_get_seat_map :: "int \<Rightarrow> 'w \<Rightarrow> result \<times> 'w"
  services_hold_seat :: "int \<Rightarrow> string \<Rightarrow> string \<Rightarrow> 'w \<Rightarrow> result \<times> 'w"
  services_release_seat :: "int \<Rightarrow> string \<Rightarrow> string \<Rightarrow> 'w \<Rightarrow> result \<times> 'w"
  services_attach_contact_and_generate_claim ::
    "int \<Rightarrow> string \<Rightarrow> string \<Rightarrow> string \<Rightarrow> 'w \<Rightarrow> result \<times> 'w"
  services_claim_hold_by_code ::
    "int \<Rightarrow> string \<Rightarrow> string \<Rightarrow> string option \<Rightarrow> 'w \<Rightarrow> result \<times> 'w"
  services_admin_generate_booking_code_and_book ::
    "int \<Rightarrow> string list \<Rightarrow> 'w \<Rightarrow> result \<times> 'w"
  services_confirm_booked_by_admin :: "int \<Rightarrow> string list \<Rightarrow> 'w \<Rightarrow> result \<times> 'w"

text \<open>Every call a view makes into \<open>services\<close> is recorded with its arguments.\<close>

datatype call =
    Expire_holds
  | List_trips
  | Get_seat_map int
  | Hold_seat int string string
  | Release_seat int string string
  | Attach_contact_and_generate_claim int string string string
  | Claim_hold_by_code int string string "string option"
  | Admin_generate_booking_code_and_book int "string list"
  | Confirm_booked_by_admin int "string list"

text \<open>
  What a request runs against: the backing store \<open>world\<close>, which only \<open>services\<close>
  touches; the browser session's dictionary \<open>request.session\<close>, which the framework
  keeps from one request of the session to the next; the random source; and the calls
  recorded so far.
\<close>

record 'w state =
  world :: 'w
  session :: "string \<rightharpoonup> string"
  entropy :: rng
  calls :: "call list"

definition invoke :: "call \<Rightarrow> ('w \<Rightarrow> 'a \<times> 'w) \<Rightarrow> 'w state \<Rightarrow> 'a \<times> 'w state" where
  "invoke c f st =
     (case f (world st) of (r, w') \<Rightarrow> (r, st\<lparr>world := w', calls := calls st @ [c]\<rparr>))"

definition get_or_create_hold_token :: "'w state \<Rightarrow> string \<times> 'w state" where
  \<comment> \<open>\<open>_get_or_create_hold_token(request)\<close>; a stored empty string counts as no token\<close>
  "get_or_create_hold_token st =
     (let token = (case session st SESSION_KEY of None \<Rightarrow> [] | Some t \<Rightarrow> t) in
      if token = [] then
        (let token = token_hex 16 (entropy st)
         in (token, st\<lparr>session := (session st)(SESSION_KEY \<mapsto> token),
                        entropy := advance 16 (entropy st)\<rparr>))
      else (token, st))"

text \<open>
  A view returns a response, or an exception leaves it uncaught (the framework then
  answers 500). The decorators \<open>csrf_exempt\<close> and \<open>ensure_csrf_cookie\<close> only
  configure the framework's CSRF middleware and are not part of the model.
\<close>

type_synonym 'w view = "request \<Rightarrow> 'w state \<Rightarrow> outcome \<times> 'w state"

definition require_http_methods :: "http_method list \<Rightarrow> 'w view \<Rightarrow> 'w view" where
  \<comment> \<open>the decorator: any other method is answered 405 and the view does not run\<close>
  "require_http_methods allowed view req st =
     (if req_method req \<in> set allowed then view req st
      else (Returned (HttpResponseNotAllowed allowed), st))"

definition respond :: "result \<Rightarrow> response" where
  \<comment> \<open>the common tail of the write views: 409 with the service's message, or 200\<close>
  "respond res =
     (if \<not> ok res then err_resp (message res) 409 (data res)
      else ok_resp (data res) (message res) 200)"

definition build_absolute_uri :: "request \<Rightarrow> string \<Rightarrow> string" where
  \<comment> \<open>\<open>request.build_absolute_uri\<close> on a site-relative URL\<close>
  "build_absolute_uri req url = base_uri req @ url"

definition trip_summary :: "request \<Rightarrow> trip \<Rightarrow> json" where
  "trip_summary req t =
     JObj [(''id'', JInt (trip_pk t)),
           (''title'', JStr (title t)),
           (''bus_type'', JStr (bus_type t)),
           (''route_from'', JStr (route_from t)),
           (''route_to'', JStr (route_to t)),
           (''depart_at'', JStr (depart_at t)),
           (''price'', JInt (int (price t))),
           (''capacity_total'', JInt (int (capacity_total t))),
           (''bus_image_url'',
              JStr (case bus_image t of None \<Rightarrow> [] | Some url \<Rightarrow> build_absolute_uri req url))]"

definition health :: "'w view" where
  "health = require_http_methods [GET] (\<lambda>req st.
     (Returned (ok_resp None ''busbooking API is running'' 200), st))"

definition csrf :: "'w view" where
  "csrf = require_http_methods [GET] (\<lambda>req st.
     (Returned (ok_resp None ''CSRF cookie set'' 200), st))"

definition trips_list :: "'w services \<Rightarrow> 'w view" where
  "trips_list svc = require_http_methods [GET] (\<lambda>req st.
     case invoke Expire_holds (services_expire_holds svc) st of (n, st1) \<Rightarrow>
     case invoke List_trips (services_list_trips svc) st1 of (ts, st2) \<Rightarrow>
       (Returned (JsonResponse [(''ok'', JBool True),
                                (''trips'', JArr (map (trip_summary req) ts))] 200), st2))"

definition seat_map :: "'w services \<Rightarrow> int \<Rightarrow> 'w view" where
  "seat_map svc trip_id = require_http_methods [GET] (\<lambda>req st.
     case invoke (Get_seat_map trip_id) (services_get_seat_map svc trip_id) st of (res, st1) \<Rightarrow>
       if \<not> ok res then (Returned (err_resp (message res) 404 None), st1)
       else (Returned (ok_resp (data res) (message res) 200), st1))"

definition hold_seat :: "'w services \<Rightarrow> 'w view" where
  "hold_seat svc = require_http_methods [POST] (\<lambda>req st.
     case json_body req of
       Inl e \<Rightarrow> (Raised e, st)
     | Inr (b, Some err) \<Rightarrow> (Returned err, st)
     | Inr (b, None) \<Rightarrow>
        (case bind_exn (field_int b ''trip_id'') (\<lambda>trip_id.
              bind_exn (field_text b ''seat_code'') (\<lambda>s. Inr (trip_id, upper s))) of
           Inl e \<Rightarrow> (Raised e, st)
         | Inr (trip_id, seat_code) \<Rightarrow>
            if trip_id = 0 \<or> seat_code = [] then
              (Returned (err_resp ''trip_id dan seat_code wajib diisi.'' 400 None), st)
            else
              case get_or_create_hold_token st of (token, st1) \<Rightarrow>
              case invoke (Hold_seat trip_id seat_code token)
                     (services_hold_seat svc trip_id seat_code token) st1 of
                (res, st2) \<Rightarrow> (Returned (respond res), st2)))"

definition release_seat :: "'w services \<Rightarrow> 'w view" where
  "release_seat svc = require_http_methods [POST] (\<lambda>req st.
     case json_body req of
       Inl e \<Rightarrow> (Raised e, st)
     | Inr (b, Some err) \<Rightarrow> (Returned err, st)
     | Inr (b, None) \<Rightarrow>
        (case bind_exn (field_int b ''trip_id'') (\<lambda>trip_id.
              bind_exn (field_text b ''seat_code'') (\<lambda>s. Inr (trip_id, upper s))) of
           Inl e \<Rightarrow> (Raised e, st)
         | Inr (trip_id, seat_code) \<Rightarrow>
            if trip_id = 0 \<or> seat_code = [] then
              (Returned (err_resp ''trip_id dan seat_code wajib diisi.'' 400 None), st)
            else
              case get_or_create_hold_token st of (token, st1) \<Rightarrow>
              case invoke (Release_seat trip_id seat_code token)
                     (services_release_seat svc trip_id seat_code token) st1 of
                (res, st2) \<Rightarrow> (Returned (respond res), st2)))"

definition attach_contact :: "'w services \<Rightarrow> 'w view" where
  "attach_contact svc = require_http_methods [POST] (\<lambda>req st.
     case json_body req of
       Inl e \<Rightarrow> (Raised e, st)
     | Inr (b, Some err) \<Rightarrow> (Returned err, st)
     | Inr (b, None) \<Rightarrow>
        (case bind_exn (field_int b ''trip_id'') (\<lambda>trip_id.
              bind_exn (field_text b ''customer_name'') (\<lambda>name.
              bind_exn (field_text b ''customer_wa'') (\<lambda>wa. Inr (trip_id, name, wa)))) of
           Inl e \<Rightarrow> (Raised e, st)
         | Inr (trip_id, name, wa) \<Rightarrow>
            if trip_id = 0 \<or> name = [] \<or> wa = [] then
              (Returned (err_resp ''trip_id, customer_name, customer_wa wajib diisi.'' 400 None),
               st)
            else
              case get_or_create_hold_token st of (token, st1) \<Rightarrow>
              case invoke (Attach_contact_and_generate_claim trip_id token name wa)
                     (services_attach_contact_and_generate_claim svc trip_id token name wa)
                     st1 of
                (res, st2) \<Rightarrow> (Returned (respond res), st2)))"

definition claim_hold :: "'w services \<Rightarrow> 'w view" where
  "claim_hold svc = require_http_methods [POST] (\<lambda>req st.
     case json_body req of
       Inl e \<Rightarrow> (Raised e, st)
     | Inr (b, Some err) \<Rightarrow> (Returned err, st)
     | Inr (b, None) \<Rightarrow>
        (case bind_exn (field_int b ''trip_id'') (\<lambda>trip_id.
              bind_exn (field_text b ''claim_code'') (\<lambda>c.
              bind_exn (field_text b ''customer_wa'') (\<lambda>wa. Inr (trip_id, upper c, wa)))) of
           Inl e \<Rightarrow> (Raised e, st)
         | Inr (trip_id, claim, wa) \<Rightarrow>
            if trip_id = 0 \<or> claim = [] then
              (Returned (err_resp ''trip_id dan claim_code wajib diisi.'' 400 None), st)
            else
              case get_or_create_hold_token st of (new_token, st1) \<Rightarrow>
              case invoke
                     (Claim_hold_by_code trip_id claim new_token (if wa = [] then None else Some wa))
                     (services_claim_hold_by_code svc trip_id claim new_token
                        (if wa = [] then None else Some wa)) st1 of
                (res, st2) \<Rightarrow> (Returned (respond res), st2)))"

text \<open>
  The admin views turn each element of \<open>seat_codes\<close> into text with the builtin
  \<open>str\<close>. On a JSON string it is the string itself; for the other values it is their
  \<open>repr\<close>, which the views take as a parameter.
\<close>

definition py_str :: "(json \<Rightarrow> string) \<Rightarrow> json \<Rightarrow> string" where
  "py_str repr v = (case v of JStr s \<Rightarrow> s | _ \<Rightarrow> repr v)"

definition seat_codes_clean :: "(json \<Rightarrow> string) \<Rightarrow> json list \<Rightarrow> string list" where
  \<comment> \<open>\<open>[str(c).strip().upper() for c in seat_codes if str(c).strip()]\<close>\<close>
  "seat_codes_clean repr cs =
     map (\<lambda>c. upper (strip (py_str repr c))) (filter (\<lambda>c. strip (py_str repr c) \<noteq> []) cs)"

definition admin_generate_booking_code ::
  "(json \<Rightarrow> string) \<Rightarrow> settings \<Rightarrow> 'w services \<Rightarrow> 'w view" where
  "admin_generate_booking_code repr cfg svc = require_http_methods [POST] (\<lambda>req st.
     if \<not> is_admin_request cfg req then (Returned (err_resp ''Forbidden'' 403 None), st)
     else
     case json_body req of
       Inl e \<Rightarrow> (Raised e, st)
     | Inr (b, Some err) \<Rightarrow> (Returned err, st)
     | Inr (b, None) \<Rightarrow>
        (case bind_exn (field_int b ''trip_id'') (\<lambda>trip_id.
              bind_exn (dict_get b ''seat_codes'') (\<lambda>seat_codes. Inr (trip_id, seat_codes))) of
           Inl e \<Rightarrow> (Raised e, st)
         | Inr (trip_id, seat_codes) \<Rightarrow>
            (case seat_codes of
               JArr cs \<Rightarrow>
                 if trip_id = 0 \<or> cs = [] then
                   (Returned (err_resp ''trip_id dan seat_codes(list) wajib diisi.'' 400 None), st)
                 else if seat_codes_clean repr cs = [] then
                   (Returned (err_resp ''seat_codes tidak boleh kosong.'' 400 None), st)
                 else
                   (case invoke
                           (Admin_generate_booking_code_and_book trip_id (seat_codes_clean repr cs))
                           (services_admin_generate_booking_code_and_book svc trip_id
                              (seat_codes_clean repr cs)) st of
                      (res, st1) \<Rightarrow> (Returned (respond res), st1))
             | _ \<Rightarrow>
                 (Returned (err_resp ''trip_id dan seat_codes(list) wajib diisi.'' 400 None), st))))"

definition admin_confirm_booked ::
  "(json \<Rightarrow> string) \<Rightarrow> settings \<Rightarrow> 'w services \<Rightarrow> 'w view" where
  "admin_confirm_booked repr cfg svc = require_http_methods [POST] (\<lambda>req st.
     if \<not> is_admin_request cfg req then (Returned (err_resp ''Forbidden'' 403 None), st)
     else
     case json_body req of
       Inl e \<Rightarrow> (Raised e, st)
     | Inr (b, Some err) \<Rightarrow> (Returned err, st)
     | Inr (b, None) \<Rightarrow>
        (case bind_exn (field_int b ''trip_id'') (\<lambda>trip_id.
              bind_exn (dict_get b ''seat_codes'') (\<lambda>seat_codes. Inr (trip_id, seat_codes))) of
           Inl e \<Rightarrow> (Raised e, st)
         | Inr (trip_id, seat_codes) \<Rightarrow>
            (case seat_codes of
               JArr cs \<Rightarrow>
                 if trip_id = 0 \<or> cs = [] then
                   (Returned (err_resp ''trip_id dan seat_codes(list) wajib diisi.'' 400 None), st)
                 else if seat_codes_clean repr cs = [] then
                   (Returned (err_resp ''seat_codes tidak boleh kosong.'' 400 None), st)
                 else
                   (case invoke (Confirm_booked_by_admin trip_id (seat_codes_clean repr cs))
                           (services_confirm_booked_by_admin svc trip_id
                              (seat_codes_clean repr cs)) st of
                      (res, st1) \<Rightarrow> (Returned (respond res), st1))
             | _ \<Rightarrow>
                 (Returned (err_resp ''trip_id dan seat_codes(list) wajib diisi.'' 400 None), st))))"

definition expire_now :: "'w services \<Rightarrow> 'w view" where
  "expire_now svc = require_http_methods [POST] (\<lambda>req st.
     case invoke Expire_holds (services_expire_holds svc) st of (n, st1) \<Rightarrow>
       (Returned (ok_resp (Some (JObj [(''released'', JInt (int n))]))
                    ''Expired holds released'' 200), st1))"

text \<open>
  The four views of the hold flow, the hold token a recorded call was given, and a
  browser session as the requests it sends one after the other: the session store and the
  backing store are carried from each request to the next.
\<close>

definition session_views :: "'w services \<Rightarrow> 'w view list" where
  "session_views svc = [hold_seat svc, release_seat svc, attach_contact svc, claim_hold svc]"

fun call_token :: "call \<Rightarrow> string option" where
  "call_token (Hold_seat t c tok) = Some tok"
| "call_token (Release_seat t c tok) = Some tok"
| "call_token (Attach_contact_and_generate_claim t tok n w) = Some tok"
| "call_token (Claim_hold_by_code t c tok w) = Some tok"
| "call_token Expire_holds = None"
| "call_token List_trips = None"
| "call_token (Get_seat_map t) = None"
| "call_token (Admin_generate_booking_code_and_book t cs) = None"
| "call_token (Confirm_booked_by_admin t cs) = None"

fun serve :: "('w view \<times> request) list \<Rightarrow> 'w state \<Rightarrow> 'w state" where
  "serve [] st = st"
| "serve ((v, req) # rest) st = serve rest (snd (v req st))"

text \<open>
  For concrete runs: a \<open>services\<close> module that does nothing but count, in the store,
  how often it has been entered.
\<close>

definition counted :: "result" where
  "counted = \<lparr>ok = True, message = ''OK'', data = None\<rparr>"

definition counting_services :: "nat services" where
  "counting_services =
     \<lparr>services_expire_holds = (\<lambda>w. (0, Suc w)),
      services_list_trips = (\<lambda>w. ([], Suc w)),
      services_get_seat_map = (\<lambda>t w. (counted, Suc w)),
      services_hold_seat = (\<lambda>t c tok w. (counted, Suc w)),
      services_release_seat = (\<lambda>t c tok w. (counted, Suc w)),
      services_attach_contact_and_generate_claim = (\<lambda>t tok n wa w. (counted, Suc w)),
      services_claim_hold_by_code = (\<lambda>t c tok wa w. (counted, Suc w)),
      services_admin_generate_booking_code_and_book = (\<lambda>t cs w. (counted, Suc w)),
      services_confirm_booked_by_admin = (\<lambda>t cs w. (counted, Suc w))\<rparr>"

section \<open>The seat table and its uniqueness constraint\<close>

text \<open>
  \<open>Seat.Meta\<close> declares \<open>unique_together = ("trip", "code")\<close>. The table is a list
  of rows; a row's position is its identity. Rows enter and change only through the
  database, which refuses (IntegrityError) a write that would leave two rows agreeing on
  the declared columns.
\<close>

definition unique_together :: "seat \<Rightarrow> int \<times> string" where
  "unique_together s = (seat_trip s, code s)"

datatype db_error = IntegrityError | DoesNotExist

definition seat_create :: "seat \<Rightarrow> seat list \<Rightarrow> db_error + seat list" where
  \<comment> \<open>INSERT of a new row\<close>
  "seat_create s rows =
     (if unique_together s \<in> set (map unique_together rows) then Inl IntegrityError
      else Inr (rows @ [s]))"

definition seat_save :: "nat \<Rightarrow> seat \<Rightarrow> seat list \<Rightarrow> db_error + seat list" where
  \<comment> \<open>\<open>save()\<close> of the object whose row is at position \<open>i\<close>: UPDATE of any columns;
      when there is no such row, the row is inserted\<close>
  "seat_save i s rows =
     (if length rows \<le> i then seat_create s rows
      else if unique_together s \<in> set (map unique_together (take i rows @ drop (Suc i) rows))
      then Inl IntegrityError
      else Inr (rows[i := s]))"

definition seat_delete :: "nat \<Rightarrow> seat list \<Rightarrow> db_error + seat list" where
  \<comment> \<open>DELETE of the row at position \<open>i\<close>\<close>
  "seat_delete i rows =
     (if length rows \<le> i then Inl DoesNotExist else Inr (take i rows @ drop (Suc i) rows))"

inductive seat_table :: "seat list \<Rightarrow> bool" where
  \<comment> \<open>the tables the database can hold\<close>
  empty: "seat_table []"
| created: "seat_table rows \<Longrightarrow> seat_create s rows = Inr rows' \<Longrightarrow> seat_table rows'"
| saved: "seat_table rows \<Longrightarrow> seat_save i s rows = Inr rows' \<Longrightarrow> seat_table rows'"
| deleted: "seat_table rows \<Longrightarrow> seat_delete i rows = Inr rows' \<Longrightarrow> seat_table rows'"

definition seats_at :: "seat list \<Rightarrow> int \<Rightarrow> string \<Rightarrow> seat list" where
  \<comment> \<open>the rows of one trip that carry one seat code\<close>
  "seats_at rows t c = filter (\<lambda>s. seat_trip s = t \<and> code s = c) rows"

section \<open>The core operations that views.py calls but the sources do not include\<close>

record store =
  seats :: "seat list"
  trips :: "trip list"
  now :: int
  source :: rng

definition expired :: "int \<Rightarrow> seat \<Rightarrow> bool" where
  \<comment> \<open>a hold whose deadline has passed\<close>
  "expired t s =
     (status s = HOLD \<and> (case hold_until s of None \<Rightarrow> False | Some d \<Rightarrow> d < t))"

definition released :: "seat \<Rightarrow> seat" where
  "released s = s\<lparr>status := AVAILABLE, hold_token := None, hold_until := None,
                   claim_code := None\<rparr>"

definition expire_holds :: "store \<Rightarrow> nat \<times> store" where
  \<comment> \<open>Modelled from the spec: \<open>services.expire_holds\<close> is not among the sources. Section
      4.3: scans all seats with status HOLD and \<open>hold_until < now\<close>; transitions each to
      AVAILABLE, clearing \<open>hold_token\<close>, \<open>hold_until\<close>, \<open>claim_code\<close>; returns the count
      released.\<close>
  "expire_holds db =
     (length (filter (expired (now db)) (seats db)),
      db\<lparr>seats := map (\<lambda>s. if expired (now db) s then released s else s) (seats db)\<rparr>)"

definition list_trips :: "store \<Rightarrow> trip list \<times> store" where
  \<comment> \<open>Modelled from the spec: \<open>services.list_trips\<close> is not among the sources. Section 6:
      list active trips; a read.\<close>
  "list_trips db = (filter is_active (trips db), db)"

definition core_services :: "(int \<Rightarrow> store \<Rightarrow> result) \<Rightarrow> store services \<Rightarrow> store services" where
  \<comment> \<open>Modelled from the spec: the sweep and the two reads of the module \<open>services\<close>,
      which is not among the sources. Sections 6 and 9: the sweep, the trip list and the
      seat map are separate operations, the sweep is not entangled with the read-only
      queries, and a caller that needs fresh data invokes it first. So \<open>expire_holds\<close> is
      the sweep, \<open>list_trips\<close> and \<open>get_seat_map\<close> read the store and leave it as it
      is; what \<open>get_seat_map\<close> answers from the store is the parameter \<open>read\<close>; the
      remaining operations are those of \<open>base\<close>.\<close>
  "core_services read base =
     base\<lparr>services_expire_holds := expire_holds,
          services_list_trips := list_trips,
          services_get_seat_map := (\<lambda>trip_id db. (read trip_id db, db))\<rparr>"



definition eligible :: "store \<Rightarrow> int \<Rightarrow> string \<Rightarrow> bool" where
  \<comment> \<open>the named seat exists in the trip and is currently in HOLD, its deadline not passed\<close>
  "eligible db trip_id c =
     (case find (\<lambda>s. seat_trip s = trip_id \<and> code s = c) (seats db) of
        None \<Rightarrow> False
      | Some s \<Rightarrow> status s = HOLD \<and> \<not> expired (now db) s)"

datatype problem = Not_found | Not_held status

datatype finalized = Booking string "string list" | Conflict "(string \<times> problem) list"

definition effective_status :: "int \<Rightarrow> seat \<Rightarrow> status" where
  \<comment> \<open>an expired hold is treated as already AVAILABLE\<close>
  "effective_status t s = (if expired t s then AVAILABLE else status s)"

definition seat_problem :: "store \<Rightarrow> int \<Rightarrow> string \<Rightarrow> problem option" where
  \<comment> \<open>why a named seat fails the precondition of finalization, if it does\<close>
  "seat_problem db trip_id c =
     (case find (\<lambda>s. seat_trip s = trip_id \<and> code s = c) (seats db) of
        None \<Rightarrow> Some Not_found
      | Some s \<Rightarrow>
          if effective_status (now db) s = HOLD then None
          else Some (Not_held (effective_status (now db) s)))"

definition booked :: "string \<Rightarrow> int \<Rightarrow> seat \<Rightarrow> seat" where
  "booked bc t s = s\<lparr>status := BOOKED, booking_code := Some bc, booked_at := Some t,
                     hold_token := None, hold_until := None, claim_code := None\<rparr>"

definition admin_generate_booking_code_and_book ::
  "int \<Rightarrow> string list \<Rightarrow> store \<Rightarrow> finalized \<times> store" where
  \<comment> \<open>Modelled from the spec: \<open>services.admin_generate_booking_code_and_book\<close> is not
      among the sources. Section 4.4: each named seat must exist in the trip and be
      currently HOLD, an expired hold not counting; on success one fresh booking code, every
      named seat BOOKED with \<open>booking_code\<close> and \<open>booked_at\<close> stamped and \<open>hold_token\<close>,
      \<open>hold_until\<close>, \<open>claim_code\<close> cleared; if any seat fails, no seat is modified and the
      conflict names the seats that failed and why.\<close>
  "admin_generate_booking_code_and_book trip_id seat_codes db =
     (let failed = List.map_filter
            (\<lambda>c. map_option (Pair c) (seat_problem db trip_id c)) seat_codes
      in if failed \<noteq> [] then (Conflict failed, db)
         else
           (let bc = generate_booking_code (source db) in
            (Booking bc seat_codes,
             db\<lparr>seats := map (\<lambda>s. if seat_trip s = trip_id \<and> code s \<in> set seat_codes
                                     then booked bc (now db) s else s) (seats db),
                source := advance 3 (source db)\<rparr>)))"

section \<open>Properties\<close>

subsection \<open>The text helpers on concrete text\<close>

text \<open>
  \<open>int\<close> does not skip the separators FS..US that \<open>str.strip\<close> removes, accepts
  single underscores between digits and refuses more than 4300 digits; \<open>str.upper\<close>
  maps the Latin-1 letters and turns the sharp s into SS.
\<close>

lemmas int_eval = int_of_string_def is_int_space_def max_str_digits_def digit_val_def Let_def

lemma int_of_string_examples:
  "int_of_string '' 12 '' = Some 12"
  "int_of_string ''-7'' = Some (- 7)"
  "int_of_string ''+1_000'' = Some 1000"
  "int_of_string ''1__0'' = None"
  "int_of_string ''1_'' = None"
  "int_of_string ''abc'' = None"
  "int_of_string [] = None"
  "int_of_string [CHR 0x1F, CHR ''1'', CHR ''2''] = None"
  "int_of_string [CHR 0xA0, CHR ''1'', CHR ''2'', CHR 0x85] = Some 12"
  by (simp_all add: int_eval)

lemma int_of_string_digit_limit:
  assumes "max_str_digits < n"
  shows "int_of_string (replicate n (CHR ''1'')) = None"
proof -
  from assms obtain m where n: "n = Suc m" and m: "max_str_digits \<le> m"
    by (cases n) auto
  have ns: "\<not> is_int_space (CHR ''1'')" by (simp add: is_int_space_def)
  have keep: "dropWhile is_int_space (replicate k (CHR ''1'')) = replicate k (CHR ''1'')" for k
    using ns by (cases k) simp_all
  have "rev (dropWhile is_int_space (rev (dropWhile is_int_space (replicate n (CHR ''1'')))))
      = replicate n (CHR ''1'')"
    by (simp only: keep rev_replicate)
  then have strip:
    "rev (dropWhile is_int_space (rev (dropWhile is_int_space (replicate n (CHR ''1'')))))
      = CHR ''1'' # replicate m (CHR ''1'')"
    by (simp only: n replicate_Suc)
  have d: "digit_val (CHR ''1'') \<noteq> None" by (simp add: digit_val_def)
  have "length (filter (\<lambda>d. digit_val d \<noteq> None) (CHR ''1'' # replicate m (CHR ''1''))) = Suc m"
    using d by simp
  then show ?thesis
    unfolding int_of_string_def strip using m by (simp add: Let_def)
qed

lemma upper_examples:
  "upper ''a1'' = ''A1''"
  "upper [CHR 0xE9] = [CHR 0xC9]"
  "upper [CHR 0xDF] = ''SS''"
  "upper [CHR 0xF7] = [CHR 0xF7]"
  by (simp_all add: upper_def upper_char_def upper_table_def)

lemma strip_examples:
  "strip '' A1 '' = ''A1''"
  "strip [CHR 0x1F, CHR ''x'', CHR 0xA0] = ''x''"
  by (simp_all add: strip_def is_space_def)

subsection \<open>Hexadecimal text\<close>

lemma hexdigit_lower: "is_lower_hex (hexdigit n)"
  unfolding is_lower_hex_def hexdigit_def by (rule nth_mem) simp

lemma upper_hex_table: "list_all (\<lambda>c. is_upper_hex (upper_char c)) ''0123456789abcdef''"
  by (simp add: is_upper_hex_def upper_char_def upper_table_def)

lemma upper_hexdigit: "is_lower_hex c \<Longrightarrow> is_upper_hex (upper_char c)"
  using upper_hex_table unfolding list_all_iff is_lower_hex_def by (rule bspec)

lemma length_token_hex: "length (token_hex n r) = 2 * n"
  unfolding token_hex_def token_bytes_def
  by (induction n) (simp_all add: hex_byte_def)

lemma token_hex_lower: "list_all is_lower_hex (token_hex n r)"
  unfolding token_hex_def token_bytes_def
  by (induction n) (simp_all add: hex_byte_def hexdigit_lower)

lemma upper_without_sharp_s: "CHR 0xDF \<notin> set s \<Longrightarrow> upper s = map upper_char s"
  by (induction s) (auto simp: upper_def)

lemma upper_hex: "list_all is_lower_hex s \<Longrightarrow> upper s = map upper_char s"
proof (rule upper_without_sharp_s)
  assume "list_all is_lower_hex s"
  then have "set s \<subseteq> set ''0123456789abcdef''"
    unfolding list_all_iff is_lower_hex_def by blast
  moreover have "CHR 0xDF \<notin> set ''0123456789abcdef''" by simp
  ultimately show "CHR 0xDF \<notin> set s" by blast
qed

lemma upper_token_hex: "list_all is_upper_hex (upper (token_hex n r))"
  using token_hex_lower [of n r]
  by (simp add: upper_hex list_all_iff upper_hexdigit)

lemma length_upper_token_hex: "length (upper (token_hex n r)) = 2 * n"
  by (simp add: upper_hex token_hex_lower length_token_hex)

lemma list_all_take: "list_all P xs \<Longrightarrow> list_all P (take n xs)"
  by (auto simp: list_all_iff dest: in_set_takeD)

lemma list_all_drop: "list_all P xs \<Longrightarrow> list_all P (drop n xs)"
  by (auto simp: list_all_iff dest: in_set_dropD)

subsection \<open>Codes drawn from the random source\<close>

lemma hexdigit_inj: "a < 16 \<Longrightarrow> b < 16 \<Longrightarrow> hexdigit a = hexdigit b \<Longrightarrow> a = b"
proof -
  assume a: "a < 16" and b: "b < 16" and eq: "hexdigit a = hexdigit b"
  have d: "distinct ''0123456789abcdef''" by simp
  have "''0123456789abcdef'' ! a = ''0123456789abcdef'' ! b"
    using eq a b by (simp add: hexdigit_def)
  with d a b show "a = b" by (simp add: nth_eq_iff_index_eq)
qed

lemma hex_byte_inj: "hex_byte a = hex_byte b \<Longrightarrow> a = b"
proof -
  assume eq: "hex_byte a = hex_byte b"
  have a: "unat a < 256" and b: "unat b < 256"
    using unsigned_less [of a, where ?'a = nat] unsigned_less [of b, where ?'a = nat]
    by simp_all
  then have "unat a div 16 < 16" "unat b div 16 < 16" by simp_all
  moreover have "hexdigit (unat a div 16) = hexdigit (unat b div 16)"
    using eq by (simp add: hex_byte_def)
  ultimately have hi: "unat a div 16 = unat b div 16" by (rule hexdigit_inj)
  have "hexdigit (unat a mod 16) = hexdigit (unat b mod 16)"
    using eq by (simp add: hex_byte_def)
  then have lo: "unat a mod 16 = unat b mod 16"
    by (intro hexdigit_inj) simp_all
  have "unat a = unat b"
    using hi lo by (metis div_mult_mod_eq)
  then show "a = b" by (simp add: word_unat_eq_iff)
qed

lemma hex_bytes_inj:
  "length bs = length bs' \<Longrightarrow> concat (map hex_byte bs) = concat (map hex_byte bs') \<Longrightarrow> bs = bs'"
proof (induction bs bs' rule: list_induct2)
  case Nil
  then show ?case by simp
next
  case (Cons x xs y ys)
  have "length (hex_byte x) = length (hex_byte y)" by (simp add: hex_byte_def)
  with Cons.prems have "hex_byte x = hex_byte y"
    and rest: "concat (map hex_byte xs) = concat (map hex_byte ys)"
    by simp_all
  then show ?case using Cons.IH hex_byte_inj by auto
qed

lemma token_hex_inj: "token_hex n r = token_hex n r' \<longleftrightarrow> token_bytes n r = token_bytes n r'"
proof
  assume "token_hex n r = token_hex n r'"
  moreover have "length (token_bytes n r) = length (token_bytes n r')"
    by (simp add: token_bytes_def)
  ultimately show "token_bytes n r = token_bytes n r'"
    unfolding token_hex_def by (intro hex_bytes_inj)
next
  assume "token_bytes n r = token_bytes n r'"
  then show "token_hex n r = token_hex n r'" by (simp add: token_hex_def)
qed

lemma upper_char_inj_on_hex: "inj_on upper_char (set ''0123456789abcdef'')"
proof -
  have "distinct (map upper_char ''0123456789abcdef'')"
    by (simp add: upper_char_def upper_table_def)
  then show ?thesis by (simp only: distinct_map)
qed

lemma upper_hex_inj:
  assumes "list_all is_lower_hex xs" and "list_all is_lower_hex ys"
  shows "upper xs = upper ys \<longleftrightarrow> xs = ys"
proof -
  have "set xs \<union> set ys \<subseteq> set ''0123456789abcdef''"
    using assms unfolding list_all_iff is_lower_hex_def by blast
  then have "inj_on upper_char (set xs \<union> set ys)"
    by (rule inj_on_subset [OF upper_char_inj_on_hex])
  then have "map upper_char xs = map upper_char ys \<longleftrightarrow> xs = ys"
    by (rule inj_on_map_eq_map)
  then show ?thesis by (simp add: upper_hex assms)
qed

lemma upper_token_hex_inj:
  "upper (token_hex n r) = upper (token_hex n r') \<longleftrightarrow> token_bytes n r = token_bytes n r'"
  by (simp add: upper_hex_inj token_hex_lower token_hex_inj)

text \<open>
  Claim C5. Every claim code is derived from the operating system's random source and
  from nothing else (no counter): it is a function of the four bytes that
  \<open>secrets.token_hex(4)\<close> draws, and two draws give the same code only if they are
  the same four bytes. It consists of four upper-case hexadecimal characters, a hyphen
  and four more upper-case hexadecimal characters: nine characters, as in ABCD-1234.
\<close>

theorem claim_code_shape:
  "claim_code_format (generate_claim_code r)
   \<and> (generate_claim_code r = generate_claim_code r' \<longleftrightarrow> token_bytes 4 r = token_bytes 4 r')"
proof
  define raw where "raw = upper (token_hex 4 r)"
  define raw' where "raw' = upper (token_hex 4 r')"
  have len: "length raw = 8" "length raw' = 8"
    by (simp_all add: raw_def raw'_def length_upper_token_hex)
  have hex: "list_all is_upper_hex raw"
    unfolding raw_def by (rule upper_token_hex)
  have code: "generate_claim_code r = take 4 raw @ ''-'' @ drop 4 raw"
    by (simp add: generate_claim_code_def raw_def Let_def)
  have code': "generate_claim_code r' = take 4 raw' @ ''-'' @ drop 4 raw'"
    by (simp add: generate_claim_code_def raw'_def Let_def)
  have "length (take 4 raw) = 4" using len by simp
  then have parts: "take 4 (take 4 raw @ ''-'' @ drop 4 raw) = take 4 raw"
    "(take 4 raw @ ''-'' @ drop 4 raw) ! 4 = CHR ''-''"
    "drop 5 (take 4 raw @ ''-'' @ drop 4 raw) = drop 4 raw"
    by (simp_all add: nth_append)
  show "claim_code_format (generate_claim_code r)"
    unfolding claim_code_format_def code parts
    using len hex by (simp add: list_all_take list_all_drop)
  have "generate_claim_code r = generate_claim_code r'
      \<longleftrightarrow> take 4 raw = take 4 raw' \<and> drop 4 raw = drop 4 raw'"
    unfolding code code' using len by simp
  also have "\<dots> \<longleftrightarrow> raw = raw'"
    by (metis append_take_drop_id)
  also have "\<dots> \<longleftrightarrow> token_bytes 4 r = token_bytes 4 r'"
    unfolding raw_def raw'_def by (rule upper_token_hex_inj)
  finally show "generate_claim_code r = generate_claim_code r'
      \<longleftrightarrow> token_bytes 4 r = token_bytes 4 r'" .
qed

text \<open>
  Claim C6. Every booking code generated at finalization is BK- followed by six
  upper-case hexadecimal characters, as in BK-9A2F3C; the six characters are the three
  bytes drawn from the random source, and nothing else.
\<close>

theorem booking_code_shape:
  "booking_code_format (generate_booking_code r)
   \<and> (generate_booking_code r = generate_booking_code r' \<longleftrightarrow> token_bytes 3 r = token_bytes 3 r')"
proof
  define raw where "raw = upper (token_hex 3 r)"
  have len: "length raw = 6"
    by (simp add: raw_def length_upper_token_hex)
  have hex: "list_all is_upper_hex raw"
    unfolding raw_def by (rule upper_token_hex)
  have code: "generate_booking_code r = ''BK-'' @ raw"
    by (simp add: generate_booking_code_def raw_def)
  show "booking_code_format (generate_booking_code r)"
    unfolding booking_code_format_def code using len hex by simp
  have "generate_booking_code r = generate_booking_code r'
      \<longleftrightarrow> upper (token_hex 3 r) = upper (token_hex 3 r')"
    by (simp add: generate_booking_code_def)
  also have "\<dots> \<longleftrightarrow> token_bytes 3 r = token_bytes 3 r'"
    by (rule upper_token_hex_inj)
  finally show "generate_booking_code r = generate_booking_code r'
      \<longleftrightarrow> token_bytes 3 r = token_bytes 3 r'" .
qed

lemma claim_code_example:
  "generate_claim_code (\<lambda>i. 171) = ''ABAB-ABAB''"
  by (simp add: generate_claim_code_def token_hex_def token_bytes_def hex_byte_def hexdigit_def
      upper_def upper_char_def upper_table_def upt_rec)

lemma booking_code_example:
  "generate_booking_code (\<lambda>i. 154) = ''BK-9A9A9A''"
  by (simp add: generate_booking_code_def token_hex_def token_bytes_def hex_byte_def
      hexdigit_def upper_def upper_char_def upper_table_def upt_rec)

subsection \<open>The admin gate\<close>

lemma is_admin_request_iff:
  "is_admin_request cfg req \<longleftrightarrow>
     (\<exists>u. user req = Some u \<and> is_authenticated u \<and> is_staff u)
     \<or> (\<exists>k. ADMIN_API_KEY cfg = Some k \<and> k \<noteq> []
            \<and> strip (case headers req ADMIN_KEY_HEADER of None \<Rightarrow> [] | Some h \<Rightarrow> h) = k)"
  by (auto simp: is_admin_request_def Let_def split: option.splits)

text \<open>
  Claim C9. When the configured admin key is unset or empty, the admin check is False
  for every request that has no authenticated staff user, whatever X-ADMIN-KEY header
  it carries; an empty header does not match an empty key.
\<close>

theorem empty_admin_key_never_matches:
  assumes "ADMIN_API_KEY cfg = None \<or> ADMIN_API_KEY cfg = Some []"
    and "case user req of None \<Rightarrow> True | Some u \<Rightarrow> \<not> (is_authenticated u \<and> is_staff u)"
  shows "\<not> is_admin_request cfg req"
  using assms by (auto simp: is_admin_request_def split: option.splits)

theorem empty_admin_key_never_matches_witness:
  "\<not> is_admin_request \<lparr>ADMIN_API_KEY = Some []\<rparr>
       \<lparr>req_method = POST, body = Body_blank,
        user = Some \<lparr>is_authenticated = True, is_staff = False\<rparr>,
        headers = [ADMIN_KEY_HEADER \<mapsto> []], base_uri = []\<rparr>"
  using empty_admin_key_never_matches
    [of "\<lparr>ADMIN_API_KEY = Some []\<rparr>"
        "\<lparr>req_method = POST, body = Body_blank,
          user = Some \<lparr>is_authenticated = True, is_staff = False\<rparr>,
          headers = [ADMIN_KEY_HEADER \<mapsto> []], base_uri = []\<rparr>"]
  by simp

lemmas view_eval =
  require_http_methods_def json_body_def field_int_def field_text_def dict_get_def
  bind_exn_def to_int_def or_empty_def str_strip_def strip_def is_space_def upper_def
  upper_char_def upper_table_def invoke_def respond_def ok_resp_def err_resp_def
  get_or_create_hold_token_def SESSION_KEY_def counting_services_def counted_def Let_def

lemma token_hex_const: "token_hex 16 (\<lambda>i. 171) = ''abababababababababababababababab''"
  by (simp add: token_hex_def token_bytes_def hex_byte_def hexdigit_def upt_rec)

text \<open>
  With a valid key in the header the same request reaches the service: the gate is what
  stops the unauthorized one.
\<close>

lemma admin_finalize_authorized_example:
  "admin_generate_booking_code (\<lambda>v. ''?'') \<lparr>ADMIN_API_KEY = Some ''s3cret''\<rparr> counting_services
      \<lparr>req_method = POST,
       body = Body_json (JObj [(''trip_id'', JInt 1), (''seat_codes'', JArr [JStr ''a1''])]),
       user = None,
       headers = [ADMIN_KEY_HEADER \<mapsto> '' s3cret ''], base_uri = []\<rparr>
      \<lparr>world = 0, session = Map.empty, entropy = (\<lambda>i. 171), calls = []\<rparr>
     = (Returned (JsonResponse [(''ok'', JBool True), (''message'', JStr ''OK'')] 200),
        \<lparr>world = 1, session = Map.empty, entropy = (\<lambda>i. 171),
          calls = [Admin_generate_booking_code_and_book 1 [''A1'']]\<rparr>)"
  by (simp add: admin_generate_booking_code_def is_admin_request_def ADMIN_KEY_HEADER_def
      view_eval seat_codes_clean_def py_str_def)

text \<open>
  Claim C3. An admin finalize request (a POST to the endpoint) that is not authorized,
  having neither an authenticated staff user nor a header key that matches the
  configured key (\<open>is_admin_request_iff\<close> spells the check out), is answered with the failure 403 Forbidden; the booking operation is
  not invoked, whatever the services module is: the store, the session and the list of
  calls are as before. (A request with another method is answered 405 by the decorator,
  with the same unchanged state.)
\<close>

theorem admin_finalize_unauthorized:
  assumes "\<not> is_admin_request cfg req"
  shows "admin_generate_booking_code repr cfg svc req st =
           (Returned (if req_method req = POST then err_resp ''Forbidden'' 403 None
                      else HttpResponseNotAllowed [POST]), st)"
  using assms by (simp add: admin_generate_booking_code_def require_http_methods_def)

theorem admin_finalize_unauthorized_witness:
  "admin_generate_booking_code (\<lambda>v. ''?'') \<lparr>ADMIN_API_KEY = Some ''s3cret''\<rparr> counting_services
      \<lparr>req_method = POST,
       body = Body_json (JObj [(''trip_id'', JInt 1), (''seat_codes'', JArr [JStr ''A1''])]),
       user = Some \<lparr>is_authenticated = True, is_staff = False\<rparr>,
       headers = [ADMIN_KEY_HEADER \<mapsto> ''guess''], base_uri = []\<rparr>
      \<lparr>world = 0, session = Map.empty, entropy = (\<lambda>i. 171), calls = []\<rparr>
     = (Returned (JsonResponse [(''ok'', JBool False), (''message'', JStr ''Forbidden'')] 403),
        \<lparr>world = 0, session = Map.empty, entropy = (\<lambda>i. 171), calls = []\<rparr>)"
  using admin_finalize_unauthorized
    [of "\<lparr>ADMIN_API_KEY = Some ''s3cret''\<rparr>"
        "\<lparr>req_method = POST,
          body = Body_json (JObj [(''trip_id'', JInt 1), (''seat_codes'', JArr [JStr ''A1''])]),
          user = Some \<lparr>is_authenticated = True, is_staff = False\<rparr>,
          headers = [ADMIN_KEY_HEADER \<mapsto> ''guess''], base_uri = []\<rparr>"
        "\<lambda>v. ''?''" counting_services
        "\<lparr>world = 0, session = Map.empty, entropy = (\<lambda>i. 171), calls = []\<rparr>"]
  by (simp add: is_admin_request_def strip_def is_space_def err_resp_def ADMIN_KEY_HEADER_def)

subsection \<open>The session's token and the calls of a view\<close>

lemma length_hold_token: "length (token_hex 16 r) = 32"
  by (simp add: length_token_hex)

lemma token_hex_16_nonempty: "token_hex 16 r \<noteq> []"
  using length_hold_token [of r] by auto

lemma get_or_create_stored:
  "session st SESSION_KEY = Some t \<Longrightarrow> t \<noteq> [] \<Longrightarrow> get_or_create_hold_token st = (t, st)"
  by (simp add: get_or_create_hold_token_def)

lemma get_or_create_fresh:
  "session st SESSION_KEY = None \<or> session st SESSION_KEY = Some [] \<Longrightarrow>
   get_or_create_hold_token st =
     (token_hex 16 (entropy st),
      st\<lparr>session := (session st)(SESSION_KEY \<mapsto> token_hex 16 (entropy st)),
         entropy := advance 16 (entropy st)\<rparr>)"
  by (auto simp: get_or_create_hold_token_def Let_def)

lemma get_or_create_again:
  "get_or_create_hold_token (snd (get_or_create_hold_token st)) = get_or_create_hold_token st"
  by (auto simp: get_or_create_hold_token_def Let_def token_hex_16_nonempty split: option.splits)

lemma get_or_create_world:
  "world (snd (get_or_create_hold_token st)) = world st"
  "calls (snd (get_or_create_hold_token st)) = calls st"
  by (auto simp: get_or_create_hold_token_def Let_def split: option.splits)

lemma get_or_create_after_invoke:
  "fst (get_or_create_hold_token (snd (invoke c f st))) = fst (get_or_create_hold_token st)"
  by (auto simp: invoke_def get_or_create_hold_token_def Let_def split: prod.splits option.splits)

lemma calls_invoke: "calls (snd (invoke c f st)) = calls st @ [c]"
  by (simp add: invoke_def split: prod.splits)

lemma token_then_invoke:
  assumes "get_or_create_hold_token st = (tok, st1)" and "invoke c f st1 = (res, st2)"
  shows "calls st2 = calls st @ [c]" and "fst (get_or_create_hold_token st2) = tok"
proof -
  have st1: "st1 = snd (get_or_create_hold_token st)"
    and tok: "tok = fst (get_or_create_hold_token st)"
    using assms(1) by simp_all
  have st2: "st2 = snd (invoke c f st1)" using assms(2) by simp
  show "calls st2 = calls st @ [c]"
    by (simp add: st2 calls_invoke st1 get_or_create_world)
  show "fst (get_or_create_hold_token st2) = tok"
    by (simp add: st2 get_or_create_after_invoke st1 get_or_create_again tok)
qed

lemma hold_seat_step:
  "fst (get_or_create_hold_token (snd (hold_seat svc req st))) = fst (get_or_create_hold_token st)
   \<and> (\<exists>cs. calls (snd (hold_seat svc req st)) = calls st @ cs
         \<and> (\<forall>c\<in>set cs. call_token c = Some (fst (get_or_create_hold_token st))))"
  by (auto simp: hold_seat_def require_http_methods_def
      dest: token_then_invoke split: sum.splits prod.splits option.splits)

lemma release_seat_step:
  "fst (get_or_create_hold_token (snd (release_seat svc req st))) = fst (get_or_create_hold_token st)
   \<and> (\<exists>cs. calls (snd (release_seat svc req st)) = calls st @ cs
         \<and> (\<forall>c\<in>set cs. call_token c = Some (fst (get_or_create_hold_token st))))"
  by (auto simp: release_seat_def require_http_methods_def
      dest: token_then_invoke split: sum.splits prod.splits option.splits)

lemma attach_contact_step:
  "fst (get_or_create_hold_token (snd (attach_contact svc req st))) = fst (get_or_create_hold_token st)
   \<and> (\<exists>cs. calls (snd (attach_contact svc req st)) = calls st @ cs
         \<and> (\<forall>c\<in>set cs. call_token c = Some (fst (get_or_create_hold_token st))))"
  by (auto simp: attach_contact_def require_http_methods_def
      dest: token_then_invoke split: sum.splits prod.splits option.splits)

lemma claim_hold_step:
  "fst (get_or_create_hold_token (snd (claim_hold svc req st))) = fst (get_or_create_hold_token st)
   \<and> (\<exists>cs. calls (snd (claim_hold svc req st)) = calls st @ cs
         \<and> (\<forall>c\<in>set cs. call_token c = Some (fst (get_or_create_hold_token st))))"
  by (auto simp: claim_hold_def require_http_methods_def
      dest: token_then_invoke split: sum.splits prod.splits option.splits)

lemma session_view_step:
  assumes "v \<in> set (session_views svc)"
  shows "fst (get_or_create_hold_token (snd (v req st))) = fst (get_or_create_hold_token st)
   \<and> (\<exists>cs. calls (snd (v req st)) = calls st @ cs
         \<and> (\<forall>c\<in>set cs. call_token c = Some (fst (get_or_create_hold_token st))))"
proof -
  from assms consider "v = hold_seat svc" | "v = release_seat svc"
    | "v = attach_contact svc" | "v = claim_hold svc"
    by (auto simp: session_views_def)
  then show ?thesis
  proof cases
    case 1
    then show ?thesis by (simp only: hold_seat_step)
  next
    case 2
    then show ?thesis by (simp only: release_seat_step)
  next
    case 3
    then show ?thesis by (simp only: attach_contact_step)
  next
    case 4
    then show ?thesis by (simp only: claim_hold_step)
  qed
qed

lemma serve_same_token:
  assumes "\<forall>(v, req)\<in>set script. v \<in> set (session_views svc)"
  shows "\<exists>cs. calls (serve script st) = calls st @ cs
           \<and> (\<forall>c\<in>set cs. call_token c = Some (fst (get_or_create_hold_token st)))"
  using assms
proof (induction script arbitrary: st)
  case Nil
  then show ?case by simp
next
  case (Cons p script)
  obtain v req where p: "p = (v, req)" by (cases p)
  let ?st' = "snd (v req st)"
  have "v \<in> set (session_views svc)" using Cons.prems p by simp
  from session_view_step [OF this, of req st]
  obtain cs where cs: "calls ?st' = calls st @ cs"
    "\<forall>c\<in>set cs. call_token c = Some (fst (get_or_create_hold_token st))"
    and tok: "fst (get_or_create_hold_token ?st') = fst (get_or_create_hold_token st)"
    by blast
  from Cons.IH [of ?st'] Cons.prems obtain cs' where cs':
    "calls (serve script ?st') = calls ?st' @ cs'"
    "\<forall>c\<in>set cs'. call_token c = Some (fst (get_or_create_hold_token ?st'))"
    by auto
  have "calls (serve (p # script) st) = calls st @ (cs @ cs')"
    using cs(1) cs'(1) p by simp
  moreover have "\<forall>c\<in>set (cs @ cs'). call_token c = Some (fst (get_or_create_hold_token st))"
    using cs(2) cs'(2) tok by auto
  ultimately show ?case by blast
qed

subsection \<open>The hold endpoint's validation\<close>

lemma hold_seat_calls_only_when_valid:
  "hold_seat svc req st = (out, st') \<Longrightarrow>
     st' = st
     \<or> (\<exists>b trip_id s. json_body req = Inr (b, None)
          \<and> field_int b ''trip_id'' = Inr trip_id \<and> trip_id \<noteq> 0
          \<and> field_text b ''seat_code'' = Inr s \<and> upper s \<noteq> []
          \<and> calls st' = calls st @ [Hold_seat trip_id (upper s) (fst (get_or_create_hold_token st))])"
  by (auto simp: hold_seat_def require_http_methods_def bind_exn_def
      dest: token_then_invoke split: sum.splits prod.splits option.splits if_splits)

lemma hold_seat_rejects_missing_fields:
  assumes "req_method req = POST" and "json_body req = Inr (b, None)"
    and "field_int b ''trip_id'' = Inr trip_id" and "field_text b ''seat_code'' = Inr s"
    and "trip_id = 0 \<or> s = []"
  shows "hold_seat svc req st =
           (Returned (err_resp ''trip_id dan seat_code wajib diisi.'' 400 None), st)"
  using assms by (auto simp: hold_seat_def require_http_methods_def bind_exn_def upper_def)

lemma field_text_missing: "map_of kvs k = None \<Longrightarrow> field_text (JObj kvs) k = Inr []"
  by (simp add: field_text_def dict_get_def bind_exn_def or_empty_def str_strip_def strip_def)

lemma field_int_missing: "map_of kvs k = None \<Longrightarrow> field_int (JObj kvs) k = Inr 0"
  by (simp add: field_int_def dict_get_def bind_exn_def to_int_def)

text \<open>
  More requests that end in an uncaught exception: a body that is valid JSON but not an
  object, a body with an integer literal too long for \<open>json.loads\<close>, and a
  \<open>trip_id\<close> that \<open>json.loads\<close> reads as infinity.
\<close>

lemma hold_seat_non_object_raises:
  "hold_seat svc \<lparr>req_method = POST, body = Body_json (JArr []),
                  user = None, headers = Map.empty, base_uri = []\<rparr> st
     = (Raised AttributeError, st)"
  by (simp add: hold_seat_def require_http_methods_def json_body_def field_int_def
      dict_get_def bind_exn_def)

lemma hold_seat_oversized_integer_raises:
  "hold_seat svc \<lparr>req_method = POST, body = Body_oversized_integer,
                  user = None, headers = Map.empty, base_uri = []\<rparr> st
     = (Raised ValueError, st)"
  by (simp add: hold_seat_def require_http_methods_def json_body_def)

lemma hold_seat_infinite_trip_id_raises:
  "hold_seat svc
     \<lparr>req_method = POST,
      body = Body_json (JObj [(''trip_id'', JFloat (Infinity False)), (''seat_code'', JStr ''A1'')]),
      user = None, headers = Map.empty, base_uri = []\<rparr> st
     = (Raised OverflowError, st)"
  by (simp add: hold_seat_def require_http_methods_def json_body_def field_int_def
      dict_get_def bind_exn_def to_int_def)

text \<open>
  Claim C8. A hold request whose body lacks \<open>trip_id\<close> or \<open>seat_code\<close> should get
  a structured validation failure. The view does not: for the body
  \<open>{"seat_code": 5}\<close>, which lacks \<open>trip_id\<close>, the expression
  \<open>(body.get("seat_code") or "").strip()\<close> raises AttributeError, which nothing
  catches. The service is not invoked and the state is unchanged.
\<close>

theorem hold_seat_numeric_seat_code_raises:
  "hold_seat svc \<lparr>req_method = POST, body = Body_json (JObj [(''seat_code'', JInt 5)]),
                  user = None, headers = Map.empty, base_uri = []\<rparr> st
     = (Raised AttributeError, st)"
  by (simp add: hold_seat_def require_http_methods_def json_body_def field_int_def
      field_text_def dict_get_def bind_exn_def to_int_def or_empty_def str_strip_def)

subsection \<open>The hold token of a session\<close>

text \<open>
  Claim C10. Obtaining the hold token is idempotent per session: a token the session
  already stores is returned and nothing changes; otherwise a fresh token of 32
  lower-case hexadecimal characters is generated and stored; asking again returns the
  same token and changes nothing; and in any sequence of hold, release, attach-contact
  and claim requests of one session, every call into the services module receives that
  same token.
\<close>

theorem hold_token_per_session:
  "(\<forall>t. session st SESSION_KEY = Some t \<and> t \<noteq> [] \<longrightarrow> get_or_create_hold_token st = (t, st))
   \<and> (session st SESSION_KEY = None \<or> session st SESSION_KEY = Some [] \<longrightarrow>
        fst (get_or_create_hold_token st) = token_hex 16 (entropy st)
        \<and> length (fst (get_or_create_hold_token st)) = 32
        \<and> list_all is_lower_hex (fst (get_or_create_hold_token st))
        \<and> session (snd (get_or_create_hold_token st)) SESSION_KEY
            = Some (fst (get_or_create_hold_token st)))
   \<and> get_or_create_hold_token (snd (get_or_create_hold_token st))
        = (fst (get_or_create_hold_token st), snd (get_or_create_hold_token st))
   \<and> ((\<forall>(v, req)\<in>set script. v \<in> set (session_views svc)) \<longrightarrow>
        (\<forall>c\<in>set (drop (length (calls st)) (calls (serve script st))).
           call_token c = Some (fst (get_or_create_hold_token st))))"
proof (intro conjI allI impI)
  fix t assume "session st SESSION_KEY = Some t \<and> t \<noteq> []"
  then show "get_or_create_hold_token st = (t, st)"
    by (simp add: get_or_create_stored)
next
  assume fresh: "session st SESSION_KEY = None \<or> session st SESSION_KEY = Some []"
  note eq = get_or_create_fresh [OF fresh]
  show "fst (get_or_create_hold_token st) = token_hex 16 (entropy st)"
    by (simp add: eq)
  show "length (fst (get_or_create_hold_token st)) = 32"
    by (simp add: eq length_hold_token)
  show "list_all is_lower_hex (fst (get_or_create_hold_token st))"
    by (simp add: eq token_hex_lower)
  show "session (snd (get_or_create_hold_token st)) SESSION_KEY
          = Some (fst (get_or_create_hold_token st))"
    by (simp add: eq)
next
  show "get_or_create_hold_token (snd (get_or_create_hold_token st))
        = (fst (get_or_create_hold_token st), snd (get_or_create_hold_token st))"
    by (simp add: get_or_create_again)
next
  assume "\<forall>(v, req)\<in>set script. v \<in> set (session_views svc)"
  from serve_same_token [OF this, of st]
  show "\<forall>c\<in>set (drop (length (calls st)) (calls (serve script st))).
           call_token c = Some (fst (get_or_create_hold_token st))"
    by auto
qed

theorem hold_token_per_session_witness:
  "get_or_create_hold_token
      \<lparr>world = 0::nat, session = [SESSION_KEY \<mapsto> ''tok1''], entropy = (\<lambda>i. 171), calls = []\<rparr>
     = (''tok1'',
        \<lparr>world = 0, session = [SESSION_KEY \<mapsto> ''tok1''], entropy = (\<lambda>i. 171), calls = []\<rparr>)
   \<and> fst (get_or_create_hold_token
        \<lparr>world = 0::nat, session = Map.empty, entropy = (\<lambda>i. 171), calls = []\<rparr>)
     = ''abababababababababababababababab''
   \<and> calls (serve
        [(hold_seat counting_services,
          \<lparr>req_method = POST,
           body = Body_json (JObj [(''trip_id'', JInt 1), (''seat_code'', JStr ''a1'')]),
           user = None, headers = Map.empty, base_uri = []\<rparr>),
         (release_seat counting_services,
          \<lparr>req_method = POST,
           body = Body_json (JObj [(''trip_id'', JStr ''1''), (''seat_code'', JStr '' A1 '')]),
           user = None, headers = Map.empty, base_uri = []\<rparr>)]
        \<lparr>world = 0, session = Map.empty, entropy = (\<lambda>i. 171), calls = []\<rparr>)
     = [Hold_seat 1 ''A1'' ''abababababababababababababababab'',
        Release_seat 1 ''A1'' ''abababababababababababababababab'']"
  using
    hold_token_per_session
      [of "\<lparr>world = 0::nat, session = [SESSION_KEY \<mapsto> ''tok1''], entropy = (\<lambda>i. 171),
            calls = []\<rparr>" "[]" counting_services]
    hold_token_per_session
      [of "\<lparr>world = 0::nat, session = Map.empty, entropy = (\<lambda>i. 171), calls = []\<rparr>"
          "[(hold_seat counting_services,
             \<lparr>req_method = POST,
              body = Body_json (JObj [(''trip_id'', JInt 1), (''seat_code'', JStr ''a1'')]),
              user = None, headers = Map.empty, base_uri = []\<rparr>),
            (release_seat counting_services,
             \<lparr>req_method = POST,
              body = Body_json (JObj [(''trip_id'', JStr ''1''), (''seat_code'', JStr '' A1 '')]),
              user = None, headers = Map.empty, base_uri = []\<rparr>)]"
          counting_services]
  by (simp add: hold_seat_def release_seat_def view_eval token_hex_const int_of_string_def
      is_int_space_def max_str_digits_def digit_val_def)

subsection \<open>Finalization of a group of seats\<close>

lemma eligible_iff: "eligible db t c \<longleftrightarrow> seat_problem db t c = None"
  by (auto simp: eligible_def seat_problem_def effective_status_def split: option.splits)

lemma set_map_filter: "set (List.map_filter f xs) = {y. \<exists>x\<in>set xs. f x = Some y}"
  by (induction xs) (auto simp: List.map_filter_simps split: option.splits)

lemma finalize_conflict:
  assumes "List.map_filter (\<lambda>c. map_option (Pair c) (seat_problem db t c)) cs \<noteq> []"
  shows "admin_generate_booking_code_and_book t cs db =
           (Conflict (List.map_filter (\<lambda>c. map_option (Pair c) (seat_problem db t c)) cs), db)"
  using assms by (simp add: admin_generate_booking_code_and_book_def)

lemma failed_members:
  "(c, why) \<in> set (List.map_filter (\<lambda>c. map_option (Pair c) (seat_problem db t c)) cs)
     \<longleftrightarrow> c \<in> set cs \<and> seat_problem db t c = Some why"
  by (auto simp: set_map_filter)

lemma finalize_books:
  assumes "\<forall>c\<in>set seat_codes. eligible db trip_id c"
  shows "admin_generate_booking_code_and_book trip_id seat_codes db =
     (Booking (generate_booking_code (source db)) seat_codes,
      db\<lparr>seats := map (\<lambda>s. if seat_trip s = trip_id \<and> code s \<in> set seat_codes
                             then booked (generate_booking_code (source db)) (now db) s else s)
                        (seats db),
         source := advance 3 (source db)\<rparr>)"
proof -
  have "set (List.map_filter (\<lambda>c. map_option (Pair c) (seat_problem db trip_id c)) seat_codes) = {}"
    using assms by (auto simp: set_map_filter eligible_iff)
  then have "List.map_filter (\<lambda>c. map_option (Pair c) (seat_problem db trip_id c)) seat_codes = []"
    by simp
  then show ?thesis by (simp add: admin_generate_booking_code_and_book_def Let_def)
qed

lemmas core_eval =
  admin_generate_booking_code_and_book_def seat_problem_def effective_status_def expired_def
  eligible_def new_seat_def List.map_filter_simps Let_def

text \<open>
  Claim C2. Finalization is all-or-nothing: if any seat named in \<open>seat_codes\<close> is not
  currently in HOLD (a missing seat, a seat that is available or booked, or a hold whose
  deadline has passed), the store is left exactly as it was, so a held seat named beside
  it stays in HOLD and is not BOOKED, and the result is a conflict that lists exactly
  the named seats that failed, each with the reason.
\<close>

theorem finalize_all_or_nothing:
  assumes "\<exists>c\<in>set seat_codes. \<not> eligible db trip_id c"
  shows "snd (admin_generate_booking_code_and_book trip_id seat_codes db) = db
    \<and> (\<exists>failed. fst (admin_generate_booking_code_and_book trip_id seat_codes db) = Conflict failed
          \<and> (\<forall>c why. (c, why) \<in> set failed \<longleftrightarrow>
                c \<in> set seat_codes \<and> \<not> eligible db trip_id c
                \<and> seat_problem db trip_id c = Some why))"
proof -
  let ?failed = "List.map_filter (\<lambda>c. map_option (Pair c) (seat_problem db trip_id c)) seat_codes"
  from assms obtain c why where "c \<in> set seat_codes" "seat_problem db trip_id c = Some why"
    by (auto simp: eligible_iff)
  then have "(c, why) \<in> set ?failed" by (simp add: failed_members)
  then have "?failed \<noteq> []" by auto
  then have run: "admin_generate_booking_code_and_book trip_id seat_codes db = (Conflict ?failed, db)"
    by (rule finalize_conflict)
  have "\<forall>c why. (c, why) \<in> set ?failed \<longleftrightarrow>
          c \<in> set seat_codes \<and> \<not> eligible db trip_id c \<and> seat_problem db trip_id c = Some why"
    by (auto simp: failed_members eligible_iff)
  with run show ?thesis by simp
qed

theorem finalize_all_or_nothing_witness:
  "admin_generate_booking_code_and_book 1 [''A1'', ''A2'', ''A3'', ''Z9'']
      \<lparr>seats = [(new_seat 1 ''A1'' 0)\<lparr>status := HOLD, hold_token := Some ''tok1'', hold_until := Some 900\<rparr>,
                (new_seat 1 ''A2'' 0)\<lparr>status := HOLD, hold_token := Some ''tok2'', hold_until := Some 100\<rparr>,
                new_seat 1 ''A3'' 0],
       trips = [], now = 500, source = (\<lambda>i. 171)\<rparr>
     = (Conflict [(''A2'', Not_held AVAILABLE), (''A3'', Not_held AVAILABLE), (''Z9'', Not_found)],
        \<lparr>seats = [(new_seat 1 ''A1'' 0)\<lparr>status := HOLD, hold_token := Some ''tok1'', hold_until := Some 900\<rparr>,
                (new_seat 1 ''A2'' 0)\<lparr>status := HOLD, hold_token := Some ''tok2'', hold_until := Some 100\<rparr>,
                new_seat 1 ''A3'' 0],
       trips = [], now = 500, source = (\<lambda>i. 171)\<rparr>)"
  using finalize_all_or_nothing
    [of "[''A1'', ''A2'', ''A3'', ''Z9'']"
        "\<lparr>seats = [(new_seat 1 ''A1'' 0)\<lparr>status := HOLD, hold_token := Some ''tok1'', hold_until := Some 900\<rparr>,
                (new_seat 1 ''A2'' 0)\<lparr>status := HOLD, hold_token := Some ''tok2'', hold_until := Some 100\<rparr>,
                new_seat 1 ''A3'' 0],
       trips = [], now = 500, source = (\<lambda>i. 171)\<rparr>" 1]
  by (simp add: core_eval)

subsection \<open>The sweep before reads\<close>

text \<open>
  What the three views do, for every services module: the trip list view runs
  \<open>expire_holds\<close> on the store and then \<open>list_trips\<close> on the store that leaves; the
  seat map view runs \<open>get_seat_map\<close> on the store as it stands and nothing else; the
  housekeeping view runs \<open>expire_holds\<close> alone and reports its count.
\<close>

lemma trips_list_result:
  "req_method req = GET \<Longrightarrow>
     trips_list svc req st =
       (case services_expire_holds svc (world st) of (n, w1) \<Rightarrow>
        case services_list_trips svc w1 of (ts, w2) \<Rightarrow>
          (Returned (JsonResponse [(''ok'', JBool True),
                                   (''trips'', JArr (map (trip_summary req) ts))] 200),
           st\<lparr>world := w2, calls := calls st @ [Expire_holds, List_trips]\<rparr>))"
  by (simp add: trips_list_def require_http_methods_def invoke_def split: prod.splits)

lemma seat_map_result:
  "req_method req = GET \<Longrightarrow>
     seat_map svc trip_id req st =
       (case services_get_seat_map svc trip_id (world st) of (res, w1) \<Rightarrow>
          (Returned (if \<not> ok res then err_resp (message res) 404 None
                     else ok_resp (data res) (message res) 200),
           st\<lparr>world := w1, calls := calls st @ [Get_seat_map trip_id]\<rparr>))"
  by (simp add: seat_map_def require_http_methods_def invoke_def split: prod.splits)

lemma expire_now_result:
  "req_method req = POST \<Longrightarrow>
     expire_now svc req st =
       (case services_expire_holds svc (world st) of (n, w1) \<Rightarrow>
          (Returned (ok_resp (Some (JObj [(''released'', JInt (int n))]))
                       ''Expired holds released'' 200),
           st\<lparr>world := w1, calls := calls st @ [Expire_holds]\<rparr>))"
  by (simp add: expire_now_def require_http_methods_def invoke_def split: prod.splits)

lemma released_not_expired: "\<not> expired t (released s)"
  by (simp add: expired_def released_def)

lemma swept_not_expired: "s \<in> set (seats (snd (expire_holds db))) \<Longrightarrow> \<not> expired (now db) s"
  by (auto simp: expire_holds_def released_not_expired)

lemma sweep_keeps_clock: "now (snd (expire_holds db)) = now db"
  by (simp add: expire_holds_def)

text \<open>
  With the sweep and the reads of the spec, the trip list view leaves no expired hold in
  the store, the housekeeping view neither, and the seat map view leaves the store
  exactly as it found it, expired holds included.
\<close>

lemma trips_list_sweeps:
  assumes "req_method req = GET"
  shows "world (snd (trips_list (core_services read base) req st)) = snd (expire_holds (world st))"
    and "\<forall>s\<in>set (seats (world (snd (trips_list (core_services read base) req st)))).
           \<not> expired (now (world st)) s"
proof -
  show w: "world (snd (trips_list (core_services read base) req st)) = snd (expire_holds (world st))"
    using assms
    by (simp add: trips_list_result core_services_def list_trips_def split: prod.splits)
  show "\<forall>s\<in>set (seats (world (snd (trips_list (core_services read base) req st)))).
           \<not> expired (now (world st)) s"
    unfolding w by (simp add: swept_not_expired)
qed

lemma expire_now_sweeps:
  assumes "req_method req = POST"
  shows "world (snd (expire_now (core_services read base) req st)) = snd (expire_holds (world st))"
  using assms by (simp add: expire_now_result core_services_def split: prod.splits)

lemma seat_map_does_not_sweep:
  assumes "req_method req = GET"
  shows "world (snd (seat_map (core_services read base) trip_id req st)) = world st"
  using assms by (simp add: seat_map_result core_services_def)


subsection \<open>One seat per trip and code\<close>

lemma distinct_key_filter:
  "distinct (map f xs) \<Longrightarrow> length (filter (\<lambda>x. f x = k) xs) \<le> 1"
proof (induction xs)
  case Nil
  then show ?case by simp
next
  case (Cons x xs)
  show ?case
  proof (cases "f x = k")
    case True
    from Cons.prems have "f x \<notin> f ` set xs" by simp
    with True have "\<forall>y\<in>set xs. f y \<noteq> k" by blast
    then have "filter (\<lambda>y. f y = k) xs = []"
      by (simp add: filter_empty_conv)
    with True show ?thesis by simp
  next
    case False
    with Cons show ?thesis by simp
  qed
qed

lemma seat_table_distinct: "seat_table rows \<Longrightarrow> distinct (map unique_together rows)"
proof (induction rule: seat_table.induct)
  case empty
  then show ?case by simp
next
  case (created rows s rows')
  then show ?case by (auto simp: seat_create_def split: if_splits)
next
  case (saved rows i s rows')
  show ?case
  proof (cases "i < length rows")
    case False
    with saved.hyps(2) have "seat_create s rows = Inr rows'"
      by (simp add: seat_save_def)
    with saved.IH show ?thesis
      by (auto simp: seat_create_def split: if_splits)
  next
    case i: True
    with saved.hyps(2)
    have fresh: "unique_together s \<notin> set (map unique_together (take i rows @ drop (Suc i) rows))"
      and rows': "rows' = rows[i := s]"
      by (auto simp: seat_save_def split: if_splits)
    have "rows = take i rows @ rows ! i # drop (Suc i) rows"
      using i by (rule id_take_nth_drop)
    then have "distinct (map unique_together (take i rows @ rows ! i # drop (Suc i) rows))"
      using saved.IH by simp
    then have others: "distinct (map unique_together (take i rows @ drop (Suc i) rows))"
      by auto
    have "rows' = take i rows @ s # drop (Suc i) rows"
      using i rows' by (simp add: upd_conv_take_nth_drop)
    with others fresh show ?thesis by auto
  qed
next
  case (deleted rows i rows')
  from deleted.hyps(2) have i: "i < length rows"
    and rows': "rows' = take i rows @ drop (Suc i) rows"
    by (auto simp: seat_delete_def split: if_splits)
  have "rows = take i rows @ rows ! i # drop (Suc i) rows"
    using i by (rule id_take_nth_drop)
  then have "distinct (map unique_together (take i rows @ rows ! i # drop (Suc i) rows))"
    using deleted.IH by simp
  then show ?case unfolding rows' by auto
qed

lemma seats_at_key: "seats_at rows t c = filter (\<lambda>s. unique_together s = (t, c)) rows"
  by (simp add: seats_at_def unique_together_def)

lemma seat_save_inserts:
  "seat_save 5 (new_seat 1 ''A2'' 0) [new_seat 1 ''A1'' 0] = Inr [new_seat 1 ''A1'' 0, new_seat 1 ''A2'' 0]"
  by (simp add: seat_save_def seat_create_def unique_together_def new_seat_def)

lemma sweep_keeps_keys:
  "map unique_together (seats (snd (expire_holds db))) = map unique_together (seats db)"
  by (simp add: expire_holds_def unique_together_def released_def)

lemma finalize_keeps_keys:
  "map unique_together (seats (snd (admin_generate_booking_code_and_book t cs db)))
     = map unique_together (seats db)"
  by (simp add: admin_generate_booking_code_and_book_def Let_def unique_together_def booked_def)

text \<open>
  Claim C7. In every table the database can hold there is at most one seat row for a
  trip and a seat code. It is the declared constraint that keeps it so: creating a row
  for a trip and code that a row already has is refused with IntegrityError, and no
  operation has to check.
\<close>

theorem one_seat_per_trip_and_code:
  assumes "seat_table rows"
  shows "length (seats_at rows t c) \<le> 1
    \<and> (seats_at rows (seat_trip s) (code s) \<noteq> [] \<longrightarrow> seat_create s rows = Inl IntegrityError)"
proof
  show "length (seats_at rows t c) \<le> 1"
    unfolding seats_at_key using seat_table_distinct [OF assms] by (rule distinct_key_filter)
  show "seats_at rows (seat_trip s) (code s) \<noteq> [] \<longrightarrow> seat_create s rows = Inl IntegrityError"
  proof
    assume "seats_at rows (seat_trip s) (code s) \<noteq> []"
    then obtain x where "x \<in> set rows" "seat_trip x = seat_trip s" "code x = code s"
      by (auto simp: seats_at_def filter_empty_conv)
    then have "x \<in> set rows" "unique_together x = unique_together s"
      by (simp_all add: unique_together_def)
    then have "unique_together s \<in> unique_together ` set rows"
      by (metis imageI)
    then show "seat_create s rows = Inl IntegrityError"
      by (simp add: seat_create_def)
  qed
qed

theorem one_seat_per_trip_and_code_witness:
  "length (seats_at [new_seat 1 ''A1'' 0, new_seat 1 ''A2'' 0] 1 ''A1'') \<le> 1
   \<and> seat_create (new_seat 1 ''A1'' 7) [new_seat 1 ''A1'' 0, new_seat 1 ''A2'' 0]
       = Inl IntegrityError"
proof -
  have t1: "seat_table [new_seat 1 ''A1'' 0]"
    by (rule seat_table.created [OF seat_table.empty, of "new_seat 1 ''A1'' 0"])
      (simp add: seat_create_def)
  have t2: "seat_table [new_seat 1 ''A1'' 0, new_seat 1 ''A2'' 0]"
    by (rule seat_table.created [OF t1, of "new_seat 1 ''A2'' 0"])
      (simp add: seat_create_def unique_together_def new_seat_def)
  show ?thesis
    using one_seat_per_trip_and_code [OF t2, of 1 "''A1''" "new_seat 1 ''A1'' 7"]
    by (simp add: seats_at_def new_seat_def)
qed

end
